theory Spec2Isabelle
  imports Main "HOL-Library.Word"
begin

unbundle bit_operations_syntax

section \<open>The Framework Laptop driver (framework\_laptop.c)\<close>

text \<open>
  A shallow embedding of \<^verbatim>\<open>src/framework_laptop.c\<close>. The driver keeps one static
  pointer, \<^verbatim>\<open>ec_device\<close>, and talks to the embedded controller through the kernel's
  \<^verbatim>\<open>cros_ec_cmd_xfer_status\<close>. Everything the C code reads or writes outside its own
  locals is a field of the record \<open>kernel\<close>, which every function takes and returns.
  Return codes are C \<^verbatim>\<open>int\<close>s: a negative errno or a non-negative result, as in the source.
\<close>

subsection \<open>Machine types and errno values\<close>

type_synonym u8 = "8 word"
type_synonym u32 = "32 word"

text \<open>
  \<^verbatim>\<open>size_t\<close> on the 64-bit kernels the driver is built for; as \<^verbatim>\<open>ssize_t\<close> the same
  bits are read in two's complement (\<open>sint\<close>).
\<close>

type_synonym size_t = "64 word"

text \<open>A \<^verbatim>\<open>struct device *\<close> is an opaque identity; \<open>None\<close> is the NULL pointer.\<close>

type_synonym device = nat

text \<open>The errno numbers of \<^verbatim>\<open>include/uapi/asm-generic/errno-base.h\<close> that the driver returns.\<close>

definition EIO :: int where "EIO = 5"
definition ENOMEM :: int where "ENOMEM = 12"
definition ENODEV :: int where "ENODEV = 19"
definition EINVAL :: int where "EINVAL = 22"
definition ERANGE :: int where "ERANGE = 34"
definition EEXIST :: int where "EEXIST = 17"

subsection \<open>The command buffer\<close>

text \<open>
  \<^verbatim>\<open>struct cros_ec_command\<close> (kernel header \<^verbatim>\<open>cros_ec_proto.h\<close>): five 32-bit header
  fields and the flexible array \<^verbatim>\<open>data\<close>, which carries the request on the way out and
  the response on the way back. In each function of the driver the array is the anonymous
  union that follows \<^verbatim>\<open>msg\<close> in the packed local \<^verbatim>\<open>buf\<close>, so request and response
  bytes overlap.
\<close>

record cros_ec_command =
  version :: u32
  command :: u32
  outsize :: u32
  insize :: u32
  result :: u32
  data :: "u8 list"

definition EC_CMD_CHARGE_LIMIT_CONTROL :: u32 where
  "EC_CMD_CHARGE_LIMIT_CONTROL = 0x3E03"

text \<open>
  The two keyboard backlight command numbers come from the kernel header
  \<^verbatim>\<open>cros_ec_commands.h\<close>, as do the layouts of their payloads:
  \<^verbatim>\<open>struct ec_response_pwm_get_keyboard_backlight { uint8_t percent; uint8_t enabled; }\<close> and
  \<^verbatim>\<open>struct ec_params_pwm_set_keyboard_backlight { uint8_t percent; }\<close>.
\<close>

definition EC_CMD_PWM_GET_KEYBOARD_BACKLIGHT :: u32 where
  "EC_CMD_PWM_GET_KEYBOARD_BACKLIGHT = 0x0022"

definition EC_CMD_PWM_SET_KEYBOARD_BACKLIGHT :: u32 where
  "EC_CMD_PWM_SET_KEYBOARD_BACKLIGHT = 0x0023"

text \<open>\<^verbatim>\<open>enum ec_chg_limit_control_modes\<close>, with the bit each enumerator stands for.\<close>

datatype ec_chg_limit_control_modes =
  CHG_LIMIT_DISABLE | CHG_LIMIT_SET_LIMIT | CHG_LIMIT_GET_LIMIT | CHG_LIMIT_OVERRIDE

fun modes_bits :: "ec_chg_limit_control_modes \<Rightarrow> u8" where
  "modes_bits CHG_LIMIT_DISABLE = push_bit 0 1"
| "modes_bits CHG_LIMIT_SET_LIMIT = push_bit 1 1"
| "modes_bits CHG_LIMIT_GET_LIMIT = push_bit 3 1"
| "modes_bits CHG_LIMIT_OVERRIDE = push_bit 7 1"

subsection \<open>Kernel state seen by the driver\<close>

text \<open>
  \<open>framework_data\<close> is the driver's per-device allocation; of its LED class device the
  model keeps the name and \<^verbatim>\<open>max_brightness\<close> (the two callbacks are the functions
  \<open>kb_led_get\<close> and \<open>kb_led_set\<close> below).
\<close>

record framework_data =
  kb_led_name :: string
  kb_led_max_brightness :: nat

text \<open>
  \<^item> \<open>ec_device\<close>: the static \<^verbatim>\<open>struct device *ec_device\<close>;
  \<^item> \<open>dmi_sys_vendor\<close>, \<open>dmi_product_name\<close>: the firmware's DMI identity strings;
  \<^item> \<open>platform_bus\<close>: the devices on the platform bus, by name;
  \<^item> \<open>refcount\<close>: the reference count of each device (\<^verbatim>\<open>get_device\<close>/\<^verbatim>\<open>put_device\<close>);
  \<^item> \<open>driver_data\<close>: \<^verbatim>\<open>acpi_dev->driver_data\<close>;
  \<^item> \<open>led_classdevs\<close>: the names of the registered LED class devices;
  \<^item> \<open>battery_hooks\<close>: the names of the registered ACPI battery hooks;
  \<^item> \<open>ec_state\<close>: whatever the embedded controller remembers between transfers;
  \<^item> \<open>xfer_log\<close>: every message handed to the transfer primitive, oldest first.
\<close>

record 's kernel =
  ec_device :: "device option"
  dmi_sys_vendor :: string
  dmi_product_name :: string
  platform_bus :: "(string \<times> device) list"
  refcount :: "device \<Rightarrow> nat"
  driver_data :: "framework_data option"
  led_classdevs :: "string list"
  battery_hooks :: "string list"
  ec_state :: 's
  xfer_log :: "cros_ec_command list"

subsection \<open>The transfer primitive\<close>

text \<open>
  \<^verbatim>\<open>cros_ec_cmd_xfer_status\<close> belongs to the kernel, so it is a parameter of every function
  that calls it. Given the controller, the message and the controller's state it answers
  with its C return value (a negative errno, or the number of bytes received), the bytes it
  received, and the controller's next state.
\<close>

type_synonym 's xfer = "device \<Rightarrow> cros_ec_command \<Rightarrow> 's \<Rightarrow> (int \<times> u8 list) \<times> 's"

text \<open>
  The received bytes land at the start of \<^verbatim>\<open>msg->data\<close>, never more than
  \<^verbatim>\<open>msg->insize\<close> of them and never beyond the buffer; the bytes behind them keep what
  the caller put there.
\<close>

definition write_response :: "cros_ec_command \<Rightarrow> u8 list \<Rightarrow> cros_ec_command" where
  "write_response msg rx =
     (let n = min (length rx) (min (unat (insize msg)) (length (data msg)))
      in msg\<lparr>data := take n rx @ drop n (data msg)\<rparr>)"

definition cros_ec_cmd_xfer_status ::
  "'s xfer \<Rightarrow> device \<Rightarrow> cros_ec_command \<Rightarrow> 's kernel \<Rightarrow> (int \<times> cros_ec_command) \<times> 's kernel" where
  "cros_ec_cmd_xfer_status xfer ec msg k =
     (case xfer ec msg (ec_state k) of
        ((ret, rx), s') \<Rightarrow>
          ((ret, write_response msg rx),
           k\<lparr>ec_state := s', xfer_log := xfer_log k @ [msg]\<rparr>))"

subsection \<open>Charge limit\<close>

text \<open>
  \<^verbatim>\<open>charge_limit_control\<close> (lines 65--100). The union holds the three request bytes
  \<^verbatim>\<open>{modes, max_percentage, min_percentage}\<close> and the two response bytes
  \<^verbatim>\<open>{max_percentage, min_percentage}\<close> at the same address; \<^verbatim>\<open>memset\<close> clears all of it,
  so \<^verbatim>\<open>min_percentage\<close> goes out as 0. \<open>charge_limit_msg\<close> is \<^verbatim>\<open>buf\<close> as it stands
  when the transfer is called. The result is read from byte 0 of the union.
\<close>

definition charge_limit_msg :: "ec_chg_limit_control_modes \<Rightarrow> u8 \<Rightarrow> cros_ec_command" where
  "charge_limit_msg modes max_percentage =
     \<lparr>version = 0, command = EC_CMD_CHARGE_LIMIT_CONTROL, outsize = 3, insize = 2,
      result = 0, data = [modes_bits modes, max_percentage, 0]\<rparr>"

definition charge_limit_control ::
  "'s xfer \<Rightarrow> ec_chg_limit_control_modes \<Rightarrow> u8 \<Rightarrow> 's kernel \<Rightarrow> int \<times> 's kernel" where
  "charge_limit_control xfer modes max_percentage k =
     (case ec_device k of
        None \<Rightarrow> (- ENODEV, k)
      | Some ec \<Rightarrow>
          (case cros_ec_cmd_xfer_status xfer ec (charge_limit_msg modes max_percentage) k of
             ((ret, msg'), k') \<Rightarrow>
               if ret < 0 then (- EIO, k')
               else (uint (data msg' ! 0), k')))"

text \<open>
  \<^verbatim>\<open>sysfs_emit(buf, "%d\n", n)\<close>: the kernel prints the decimal form of the \<^verbatim>\<open>int\<close>
  and a newline at the start of the page and returns the number of characters written.
\<close>

function show_nat :: "nat \<Rightarrow> string" where
  "show_nat n =
     (if n < 10 then [char_of (48 + n)]
      else show_nat (n div 10) @ [char_of (48 + n mod 10)])"
  by pat_completeness auto
termination
  by (relation "measure id") auto

declare show_nat.simps [simp del]

definition sysfs_emit_d :: "int \<Rightarrow> string" where
  "sysfs_emit_d n =
     (if n < 0 then CHR ''-'' # show_nat (nat (- n)) else show_nat (nat n)) @ [CHR 0x0A]"

text \<open>
  \<^verbatim>\<open>battery_get_threshold\<close> (lines 179--188). The result is the C return value paired
  with the text of the page \<^verbatim>\<open>buf\<close>, which an error leaves as it was.
\<close>

definition battery_get_threshold ::
  "'s xfer \<Rightarrow> string \<Rightarrow> 's kernel \<Rightarrow> (int \<times> string) \<times> 's kernel" where
  "battery_get_threshold xfer buf k =
     (case charge_limit_control xfer CHG_LIMIT_GET_LIMIT 0 k of
        (ret, k') \<Rightarrow>
          if ret < 0 then ((ret, buf), k')
          else ((int (length (sysfs_emit_d ret)), sysfs_emit_d ret), k'))"

text \<open>
  \<^verbatim>\<open>kstrtouint(buf, 10, &value)\<close> is the kernel's parser (\<^verbatim>\<open>lib/kstrtox.c\<close>), here for
  base 10: an optional \<^verbatim>\<open>+\<close>, at least one decimal digit, an optional final newline and
  nothing else. A digit string beyond 64 bits is \<^verbatim>\<open>-ERANGE\<close> before anything else is
  looked at; no digit or trailing characters are \<^verbatim>\<open>-EINVAL\<close>; a value that does not fit
  32 bits is \<^verbatim>\<open>-ERANGE\<close>. \<open>Inl\<close> carries the error return, \<open>Inr\<close> the value stored
  through the pointer when the return is 0.
\<close>

definition isdigit :: "char \<Rightarrow> bool" where
  "isdigit c = (48 \<le> (of_char c :: nat) \<and> (of_char c :: nat) \<le> 57)"

definition digit_val :: "char \<Rightarrow> nat" where
  "digit_val c = of_char c - 48"

definition parse_integer :: "string \<Rightarrow> nat" where
  "parse_integer ds = foldl (\<lambda>acc c. acc * 10 + digit_val c) 0 ds"

definition kstrtoull :: "string \<Rightarrow> int + nat" where
  "kstrtoull s =
     (let s1 = (case s of [] \<Rightarrow> [] | c # r \<Rightarrow> if c = CHR ''+'' then r else c # r);
          ds = takeWhile isdigit s1;
          rest = dropWhile isdigit s1
      in if 2 ^ 64 \<le> parse_integer ds then Inl (- ERANGE)
         else if ds = [] then Inl (- EINVAL)
         else (case (case rest of [] \<Rightarrow> [] | c # r \<Rightarrow> if c = CHR 0x0A then r else c # r) of
                 [] \<Rightarrow> Inr (parse_integer ds)
               | _ # _ \<Rightarrow> Inl (- EINVAL)))"

definition kstrtouint :: "string \<Rightarrow> int + u32" where
  "kstrtouint s =
     (case kstrtoull s of
        Inl e \<Rightarrow> Inl e
      | Inr tmp \<Rightarrow> if 2 ^ 32 \<le> tmp then Inl (- ERANGE) else Inr (word_of_nat tmp))"

text \<open>
  \<^verbatim>\<open>battery_set_threshold\<close> (lines 190--207). The source declares \<^verbatim>\<open>int value\<close> and
  hands its address to \<^verbatim>\<open>kstrtouint\<close>, so the 32 bits the parser stores are read back as
  a signed \<^verbatim>\<open>int\<close> (\<open>sint\<close>) in the comparison \<^verbatim>\<open>value > 100\<close>; the cast
  \<^verbatim>\<open>(uint8_t)value\<close> keeps the low eight bits. On success the function returns the
  \<^verbatim>\<open>size_t count\<close> as its \<^verbatim>\<open>ssize_t\<close> result, which is negative from \<open>2\<^sup>6\<^sup>3\<close> on.
\<close>

definition battery_set_threshold ::
  "'s xfer \<Rightarrow> string \<Rightarrow> size_t \<Rightarrow> 's kernel \<Rightarrow> int \<times> 's kernel" where
  "battery_set_threshold xfer buf count k =
     (case kstrtouint buf of
        Inl e \<Rightarrow> (e, k)
      | Inr v \<Rightarrow>
          if 100 < sint v then (- EINVAL, k)
          else (case charge_limit_control xfer CHG_LIMIT_SET_LIMIT (ucast v) k of
                  (ret, k') \<Rightarrow> if ret < 0 then (ret, k') else (sint count, k')))"

subsection \<open>Keyboard backlight\<close>

text \<open>
  \<^verbatim>\<open>kb_led_get\<close> (lines 103--139): every path that does not reach
  \<^verbatim>\<open>return resp->percent\<close> ends at the label \<^verbatim>\<open>out\<close> and returns 0. In the response
  \<^verbatim>\<open>percent\<close> is byte 0 and \<^verbatim>\<open>enabled\<close> is byte 1.
\<close>

definition kb_get_msg :: cros_ec_command where
  "kb_get_msg =
     \<lparr>version = 0, command = EC_CMD_PWM_GET_KEYBOARD_BACKLIGHT, outsize = 0, insize = 2,
      result = 0, data = [0, 0]\<rparr>"

definition kb_led_get :: "'s xfer \<Rightarrow> 's kernel \<Rightarrow> int \<times> 's kernel" where
  "kb_led_get xfer k =
     (case ec_device k of
        None \<Rightarrow> (0, k)
      | Some ec \<Rightarrow>
          (case cros_ec_cmd_xfer_status xfer ec kb_get_msg k of
             ((ret, msg'), k') \<Rightarrow>
               if ret < 0 then (0, k')
               else if data msg' ! 1 \<noteq> 0 then (uint (data msg' ! 0), k')
               else (0, k')))"

text \<open>
  \<^verbatim>\<open>kb_led_set\<close> (lines 142--176): \<^verbatim>\<open>params->percent = value\<close> keeps the low eight bits
  of the brightness. A missing controller is reported as \<^verbatim>\<open>-EIO\<close> here.
\<close>

definition kb_set_msg :: "u32 \<Rightarrow> cros_ec_command" where
  "kb_set_msg brightness =
     \<lparr>version = 0, command = EC_CMD_PWM_SET_KEYBOARD_BACKLIGHT, outsize = 1, insize = 0,
      result = 0, data = [ucast brightness]\<rparr>"

definition kb_led_set :: "'s xfer \<Rightarrow> u32 \<Rightarrow> 's kernel \<Rightarrow> int \<times> 's kernel" where
  "kb_led_set xfer brightness k =
     (case ec_device k of
        None \<Rightarrow> (- EIO, k)
      | Some ec \<Rightarrow>
          (case cros_ec_cmd_xfer_status xfer ec (kb_set_msg brightness) k of
             ((ret, msg'), k') \<Rightarrow> if ret < 0 then (- EIO, k') else (0, k')))"

subsection \<open>Battery hook\<close>

text \<open>
  Of a \<^verbatim>\<open>struct power_supply\<close> the callbacks read \<^verbatim>\<open>battery->desc->name\<close> and pass
  \<^verbatim>\<open>&battery->dev\<close> on; \<open>dev_attrs\<close> are the sysfs attributes that device carries.
\<close>

record power_supply =
  desc_name :: string
  dev_attrs :: "string list"

text \<open>
  \<^verbatim>\<open>ATTRIBUTE_GROUPS(framework_laptop_battery)\<close>: one unnamed group with the attribute of
  \<^verbatim>\<open>DEVICE_ATTR_RW(charge_control_end_threshold)\<close>.
\<close>

definition framework_laptop_battery_groups :: "string list" where
  "framework_laptop_battery_groups = [''charge_control_end_threshold'']"

text \<open>
  \<^verbatim>\<open>device_add_groups\<close> and \<^verbatim>\<open>device_remove_groups\<close> are the kernel's; the callbacks
  take them as parameters. \<^verbatim>\<open>framework_laptop_battery_add\<close> (lines 230--240) turns any
  failure of \<^verbatim>\<open>device_add_groups\<close> into \<^verbatim>\<open>-ENODEV\<close>;
  \<^verbatim>\<open>framework_laptop_battery_remove\<close> (lines 242--246) returns 0.
\<close>

type_synonym add_groups = "power_supply \<Rightarrow> string list \<Rightarrow> int \<times> power_supply"
type_synonym remove_groups = "power_supply \<Rightarrow> string list \<Rightarrow> power_supply"

definition framework_laptop_battery_add :: "add_groups \<Rightarrow> power_supply \<Rightarrow> int \<times> power_supply" where
  "framework_laptop_battery_add device_add_groups battery =
     (if desc_name battery \<noteq> ''BAT1'' then (- ENODEV, battery)
      else (case device_add_groups battery framework_laptop_battery_groups of
              (r, battery') \<Rightarrow> if r \<noteq> 0 then (- ENODEV, battery') else (0, battery')))"

definition framework_laptop_battery_remove ::
  "remove_groups \<Rightarrow> power_supply \<Rightarrow> int \<times> power_supply" where
  "framework_laptop_battery_remove device_remove_groups battery =
     (0, device_remove_groups battery framework_laptop_battery_groups)"

text \<open>
  A sysfs that behaves as the kernel's does when memory is not short: adding a group fails
  with \<^verbatim>\<open>-EEXIST\<close> when one of its attributes is already there, removing drops the
  group's attributes.
\<close>

definition sysfs_add_groups :: add_groups where
  "sysfs_add_groups battery grp =
     (if list_ex (\<lambda>a. a \<in> set (dev_attrs battery)) grp then (- EEXIST, battery)
      else (0, battery\<lparr>dev_attrs := dev_attrs battery @ grp\<rparr>))"

text \<open>A \<^verbatim>\<open>device_add_groups\<close> that finds no memory.\<close>

definition nomem_add_groups :: add_groups where
  "nomem_add_groups battery grp = (- ENOMEM, battery)"

definition sysfs_remove_groups :: remove_groups where
  "sysfs_remove_groups battery grp =
     battery\<lparr>dev_attrs := filter (\<lambda>a. a \<notin> set grp) (dev_attrs battery)\<rparr>"

subsection \<open>Platform identity\<close>

text \<open>
  \<^verbatim>\<open>framework_laptop_dmi_table\<close> (lines 260--269) has one entry with two
  \<^verbatim>\<open>DMI_MATCH\<close> fields. In the kernel (\<^verbatim>\<open>mod_devicetable.h\<close>, \<^verbatim>\<open>dmi_scan.c\<close>)
  \<^verbatim>\<open>DMI_MATCH(a, b)\<close> is \<^verbatim>\<open>{ .slot = a, .substr = b }\<close>, tested with
  \<^verbatim>\<open>strstr(dmi_ident[slot], substr)\<close>; only \<^verbatim>\<open>DMI_EXACT_MATCH\<close> sets
  \<^verbatim>\<open>exact_match\<close> and is tested with \<^verbatim>\<open>strcmp\<close>. \<^verbatim>\<open>dmi_check_system\<close> counts the
  entries of the table all of whose fields match. An identity string the firmware does not
  provide is the empty string here: like the kernel's NULL it matches neither field.
\<close>

datatype dmi_field = DMI_SYS_VENDOR | DMI_PRODUCT_NAME

record dmi_strmatch =
  slot :: dmi_field
  substr :: string
  exact_match :: bool

definition DMI_MATCH :: "dmi_field \<Rightarrow> string \<Rightarrow> dmi_strmatch" where
  "DMI_MATCH a b = \<lparr>slot = a, substr = b, exact_match = False\<rparr>"

definition framework_laptop_dmi_table :: "dmi_strmatch list list" where
  "framework_laptop_dmi_table =
     [[DMI_MATCH DMI_SYS_VENDOR ''Framework'', DMI_MATCH DMI_PRODUCT_NAME ''Laptop'']]"

fun starts_with :: "string \<Rightarrow> string \<Rightarrow> bool" where
  "starts_with hay [] = True"
| "starts_with [] (n # ns) = False"
| "starts_with (h # hs) (n # ns) = (h = n \<and> starts_with hs ns)"

text \<open>\<^verbatim>\<open>strstr(hay, needle) != NULL\<close>: the needle occurs somewhere in the haystack.\<close>

fun strstr :: "string \<Rightarrow> string \<Rightarrow> bool" where
  "strstr [] needle = (needle = [])"
| "strstr (h # hs) needle = (starts_with (h # hs) needle \<or> strstr hs needle)"

definition dmi_ident :: "'s kernel \<Rightarrow> dmi_field \<Rightarrow> string" where
  "dmi_ident k f = (case f of DMI_SYS_VENDOR \<Rightarrow> dmi_sys_vendor k
                            | DMI_PRODUCT_NAME \<Rightarrow> dmi_product_name k)"

definition dmi_matches :: "'s kernel \<Rightarrow> dmi_strmatch list \<Rightarrow> bool" where
  "dmi_matches k dmi =
     list_all (\<lambda>m. if exact_match m then dmi_ident k (slot m) = substr m
                   else strstr (dmi_ident k (slot m)) (substr m)) dmi"

definition dmi_check_system :: "dmi_strmatch list list \<Rightarrow> 's kernel \<Rightarrow> nat" where
  "dmi_check_system table k = length (filter (dmi_matches k) table)"

subsection \<open>Attach and detach\<close>

definition FRAMEWORK_LAPTOP_EC_DEVICE_NAME :: string where
  "FRAMEWORK_LAPTOP_EC_DEVICE_NAME = ''cros_ec_lpcs.0''"

definition kb_led_classdev_name :: string where
  "kb_led_classdev_name = ''framework_acpi::kbd_backlight''"

definition framework_laptop_battery_hook :: string where
  "framework_laptop_battery_hook = ''Framework Laptop Battery Extension''"

text \<open>
  The kernel services that attach and detach call.
  \<^verbatim>\<open>bus_find_device_by_name\<close> returns the device with its reference count raised, or NULL;
  \<^verbatim>\<open>put_device\<close> drops one reference and ignores NULL;
  \<^verbatim>\<open>battery_hook_register\<close> returns nothing.
  Whether \<^verbatim>\<open>devm_kzalloc\<close> and \<^verbatim>\<open>devm_led_classdev_register\<close> succeed is the kernel's
  to decide: \<open>probe_env\<close> carries the two outcomes. What \<^verbatim>\<open>devm_\<close> calls have set up
  is released by the driver core, after \<open>framework_add\<close> has failed or
  \<open>framework_remove\<close> has returned, and not by the driver; the reference to the
  controller is not of that kind.
\<close>

definition bus_find_device_by_name :: "string \<Rightarrow> 's kernel \<Rightarrow> device option \<times> 's kernel" where
  "bus_find_device_by_name nm k =
     (case map_of (platform_bus k) nm of
        None \<Rightarrow> (None, k)
      | Some d \<Rightarrow> (Some d, k\<lparr>refcount := (refcount k)(d := Suc (refcount k d))\<rparr>))"

definition put_device :: "device option \<Rightarrow> 's kernel \<Rightarrow> 's kernel" where
  "put_device dev k =
     (case dev of
        None \<Rightarrow> k
      | Some d \<Rightarrow> k\<lparr>refcount := (refcount k)(d := refcount k d - 1)\<rparr>)"

definition battery_hook_register :: "string \<Rightarrow> 's kernel \<Rightarrow> 's kernel" where
  "battery_hook_register hook k = k\<lparr>battery_hooks := hook # battery_hooks k\<rparr>"

definition battery_hook_unregister :: "string \<Rightarrow> 's kernel \<Rightarrow> 's kernel" where
  "battery_hook_unregister hook k = k\<lparr>battery_hooks := remove1 hook (battery_hooks k)\<rparr>"

record probe_env =
  kzalloc_ok :: bool
  led_register_ret :: int

text \<open>
  \<^verbatim>\<open>framework_add\<close> (lines 272--320). The lookup's result is assigned to
  \<^verbatim>\<open>ec_device\<close> before it is tested, and each later failure returns at once. The block
  under \<^verbatim>\<open>#if 0\<close> is not compiled.
\<close>

definition framework_add :: "probe_env \<Rightarrow> 's kernel \<Rightarrow> int \<times> 's kernel" where
  "framework_add env k =
     (if dmi_check_system framework_laptop_dmi_table k = 0 then (- ENODEV, k)
      else (case bus_find_device_by_name FRAMEWORK_LAPTOP_EC_DEVICE_NAME k of
              (dev, k1) \<Rightarrow>
                (let k2 = k1\<lparr>ec_device := dev\<rparr>
                 in if dev = None then (- EINVAL, k2)
                    else if \<not> kzalloc_ok env then (- ENOMEM, k2)
                    else (let k3 = k2\<lparr>driver_data :=
                                       Some \<lparr>kb_led_name = kb_led_classdev_name,
                                             kb_led_max_brightness = 100\<rparr>\<rparr>;
                              ret = led_register_ret env
                          in if ret \<noteq> 0 then (ret, k3)
                             else (ret,
                                   battery_hook_register framework_laptop_battery_hook
                                     (k3\<lparr>led_classdevs :=
                                           kb_led_classdev_name # led_classdevs k3\<rparr>))))))"

text \<open>\<^verbatim>\<open>framework_remove\<close> (lines 322--327): two calls, and no assignment to \<^verbatim>\<open>ec_device\<close>.\<close>

definition framework_remove :: "'s kernel \<Rightarrow> 's kernel" where
  "framework_remove k =
     (let k1 = battery_hook_unregister framework_laptop_battery_hook k
      in put_device (ec_device k1) k1)"

subsection \<open>Transfer primitives used as test doubles\<close>

text \<open>
  The simulated EC of the round-trip property. It is no part of the driver: the property
  describes it, as a controller that stores what a SET\_LIMIT request carries and echoes it
  without clamping. Of the buffer it sees the \<^verbatim>\<open>outsize\<close> bytes that are sent and no
  more. It serves version 0 of CHARGE\_LIMIT\_CONTROL with a request of exactly three
  bytes: it keeps the limits of the last request that had the SET\_LIMIT bit (bit 1) and
  answers with the two limits it keeps. When \<^verbatim>\<open>insize\<close> leaves no room for the two
  bytes the transfer fails, after the controller has acted. Any other request fails.
\<close>

record ec_sim =
  sim_max :: u8
  sim_min :: u8

definition echo_ec :: "ec_sim xfer" where
  "echo_ec ec msg s =
     (if command msg = EC_CMD_CHARGE_LIMIT_CONTROL \<and> version msg = 0 then
        (case take (unat (outsize msg)) (data msg) of
           [modes, mx, mn] \<Rightarrow>
             (let s' = (if bit modes 1 then \<lparr>sim_max = mx, sim_min = mn\<rparr> else s)
              in if unat (insize msg) < 2 then ((- EINVAL, []), s')
                 else ((2, [sim_max s', sim_min s']), s'))
         | _ \<Rightarrow> ((- EINVAL, []), s))
      else ((- EINVAL, []), s))"

text \<open>
  A transfer that reports success with the given byte count and delivers the given bytes,
  whatever is asked; and one that always fails.
\<close>

definition fixed_ec :: "int \<Rightarrow> u8 list \<Rightarrow> unit xfer" where
  "fixed_ec ret rx ec msg s = ((ret, rx), s)"

definition failing_ec :: "unit xfer" where
  "failing_ec ec msg s = ((- EIO, []), s)"

text \<open>
  A machine before attach: no controller handle, the controller present on the platform
  bus as device 7 with one reference held by the bus, nothing registered.
\<close>

definition boot_kernel :: "string \<Rightarrow> string \<Rightarrow> 's \<Rightarrow> 's kernel" where
  "boot_kernel vendor product s =
     \<lparr>ec_device = None, dmi_sys_vendor = vendor, dmi_product_name = product,
      platform_bus = [(''cros_ec_lpcs.0'', 7)], refcount = (\<lambda>d. if d = 7 then 1 else 0),
      driver_data = None, led_classdevs = [], battery_hooks = [],
      ec_state = s, xfer_log = []\<rparr>"

text \<open>The same machine after a successful attach.\<close>

definition attached_kernel :: "'s \<Rightarrow> 's kernel" where
  "attached_kernel s =
     snd (framework_add \<lparr>kzalloc_ok = True, led_register_ret = 0\<rparr>
            (boot_kernel ''Framework'' ''Laptop'' s))"

section \<open>Properties\<close>

subsection \<open>Unfolding the transfer\<close>

lemmas errno_defs = EIO_def ENOMEM_def ENODEV_def EINVAL_def ERANGE_def EEXIST_def

lemmas kstrtouint_defs = kstrtouint_def kstrtoull_def isdigit_def parse_integer_def digit_val_def

lemmas dmi_defs = dmi_check_system_def dmi_matches_def dmi_ident_def
  framework_laptop_dmi_table_def DMI_MATCH_def

lemma xfer_status_eq:
  "xfer ec msg (ec_state k) = ((ret, rx), s') \<Longrightarrow>
   cros_ec_cmd_xfer_status xfer ec msg k =
     ((ret, write_response msg rx), k\<lparr>ec_state := s', xfer_log := xfer_log k @ [msg]\<rparr>)"
  by (simp add: cros_ec_cmd_xfer_status_def)

text \<open>What the driver finds in the union after the transfer has delivered \<open>rx\<close>.\<close>

lemma charge_response_data:
  "data (write_response (charge_limit_msg m p) rx) =
     (case rx of [] \<Rightarrow> [modes_bits m, p, 0] | [b] \<Rightarrow> [b, p, 0] | b # c # _ \<Rightarrow> [b, c, 0])"
proof (cases rx)
  case Nil
  then show ?thesis by (simp add: write_response_def charge_limit_msg_def)
next
  case (Cons b r)
  then show ?thesis by (cases r) (simp_all add: write_response_def charge_limit_msg_def)
qed

lemma kb_response_data:
  "data (write_response kb_get_msg rx) =
     (case rx of [] \<Rightarrow> [0, 0] | [b] \<Rightarrow> [b, 0] | b # e # _ \<Rightarrow> [b, e])"
proof (cases rx)
  case Nil
  then show ?thesis by (simp add: write_response_def kb_get_msg_def)
next
  case (Cons b r)
  then show ?thesis by (cases r) (simp_all add: write_response_def kb_get_msg_def)
qed

lemma attached_kernel_fields:
  "ec_device (attached_kernel s) = Some 7"
  "ec_state (attached_kernel s) = s"
  "xfer_log (attached_kernel s) = []"
  "refcount (attached_kernel s) 7 = 2"
  "led_classdevs (attached_kernel s) = [kb_led_classdev_name]"
  "battery_hooks (attached_kernel s) = [framework_laptop_battery_hook]"
  by (simp_all add: attached_kernel_def framework_add_def dmi_defs boot_kernel_def
      bus_find_device_by_name_def FRAMEWORK_LAPTOP_EC_DEVICE_NAME_def battery_hook_register_def)

subsection \<open>Keyboard backlight read\<close>

lemma kb_led_get_eq:
  assumes "ec_device k = Some ec" and "xfer ec kb_get_msg (ec_state k) = ((ret, rx), s')"
  shows "fst (kb_led_get xfer k) =
     (if ret < 0 then 0
      else (case rx of [] \<Rightarrow> 0 | [b] \<Rightarrow> 0 | b # e # _ \<Rightarrow> if e \<noteq> 0 then uint b else 0))"
proof -
  show ?thesis
    using assms
    by (simp add: kb_led_get_def xfer_status_eq kb_response_data split: list.splits)
qed

text \<open>
  Claim C2. \<open>kb_led_get\<close> never returns an error: its result is never negative. It is 0
  when the controller handle is absent, when the transfer returns a negative status
  (whatever bytes came with it), and when the response's \<^verbatim>\<open>enabled\<close> byte is 0, whatever
  its \<^verbatim>\<open>percent\<close> byte; only a successful transfer with \<^verbatim>\<open>enabled\<close> set yields
  \<^verbatim>\<open>percent\<close>.
\<close>

theorem kb_led_get_never_fails:
  "0 \<le> fst (kb_led_get xfer k)
   \<and> (ec_device k = None \<longrightarrow> kb_led_get xfer k = (0, k))
   \<and> (ec_device k = Some ec \<and> fst (fst (xfer ec kb_get_msg (ec_state k))) < 0
        \<longrightarrow> fst (kb_led_get xfer k) = 0)
   \<and> (ec_device k = Some ec
        \<and> xfer ec kb_get_msg (ec_state k) = ((ret, percent # enabled # rest), s')
        \<longrightarrow> fst (kb_led_get xfer k) = (if ret < 0 \<or> enabled = 0 then 0 else uint percent))"
proof -
  have nonneg: "0 \<le> fst (kb_led_get xfer k)"
  proof (cases "ec_device k")
    case None
    then show ?thesis by (simp add: kb_led_get_def)
  next
    case (Some d)
    obtain r rx s' where "xfer d kb_get_msg (ec_state k) = ((r, rx), s')"
      by (metis surj_pair)
    from kb_led_get_eq [where xfer = xfer, OF Some this] show ?thesis
      by (simp split: list.splits)
  qed
  have absent: "ec_device k = None \<longrightarrow> kb_led_get xfer k = (0, k)"
    by (simp add: kb_led_get_def)
  have failed: "ec_device k = Some ec \<and> fst (fst (xfer ec kb_get_msg (ec_state k))) < 0
      \<longrightarrow> fst (kb_led_get xfer k) = 0"
  proof (intro impI, elim conjE)
    assume h: "ec_device k = Some ec" and neg: "fst (fst (xfer ec kb_get_msg (ec_state k))) < 0"
    obtain r rx s' where x: "xfer ec kb_get_msg (ec_state k) = ((r, rx), s')"
      by (metis surj_pair)
    with neg have "r < 0" by simp
    with kb_led_get_eq [where xfer = xfer, OF h x] show "fst (kb_led_get xfer k) = 0" by simp
  qed
  have answered: "ec_device k = Some ec
      \<and> xfer ec kb_get_msg (ec_state k) = ((ret, percent # enabled # rest), s')
      \<longrightarrow> fst (kb_led_get xfer k) = (if ret < 0 \<or> enabled = 0 then 0 else uint percent)"
  proof (intro impI, elim conjE)
    assume h: "ec_device k = Some ec"
      and x: "xfer ec kb_get_msg (ec_state k) = ((ret, percent # enabled # rest), s')"
    from kb_led_get_eq [where xfer = xfer, OF h x]
    show "fst (kb_led_get xfer k) = (if ret < 0 \<or> enabled = 0 then 0 else uint percent)"
      by simp
  qed
  from nonneg absent failed answered show ?thesis by blast
qed

theorem kb_led_get_never_fails_witness:
  "fst (kb_led_get (fixed_ec 2 [77, 0]) (attached_kernel ())) = 0
   \<and> fst (kb_led_get (fixed_ec 2 [77, 1]) (attached_kernel ())) = 77
   \<and> fst (kb_led_get failing_ec (attached_kernel ())) = 0
   \<and> fst (kb_led_get failing_ec (boot_kernel ''Framework'' ''Laptop'' ())) = 0"
proof -
  have off: "fst (kb_led_get (fixed_ec 2 [77, 0]) (attached_kernel ())) = 0"
    using kb_led_get_never_fails [of "fixed_ec 2 [77, 0]" "attached_kernel ()" 7 2 77 0 "[]" "()"]
    by (simp add: attached_kernel_fields fixed_ec_def)
  have on: "fst (kb_led_get (fixed_ec 2 [77, 1]) (attached_kernel ())) = 77"
    using kb_led_get_never_fails [of "fixed_ec 2 [77, 1]" "attached_kernel ()" 7 2 77 1 "[]" "()"]
    by (simp add: attached_kernel_fields fixed_ec_def)
  have failed: "fst (kb_led_get failing_ec (attached_kernel ())) = 0"
    using kb_led_get_never_fails [of failing_ec "attached_kernel ()" 7]
    by (simp add: attached_kernel_fields failing_ec_def errno_defs)
  have absent: "fst (kb_led_get failing_ec (boot_kernel ''Framework'' ''Laptop'' ())) = 0"
    using kb_led_get_never_fails [of failing_ec "boot_kernel ''Framework'' ''Laptop'' ()"]
    by (simp add: boot_kernel_def)
  from off on failed absent show ?thesis by simp
qed

subsection \<open>Charge limit transfer\<close>

lemma charge_limit_control_eq:
  assumes "ec_device k = Some ec"
    and "xfer ec (charge_limit_msg m p) (ec_state k) = ((ret, rx), s')"
  shows "charge_limit_control xfer m p k =
     (if ret < 0 then - EIO else uint (case rx of [] \<Rightarrow> modes_bits m | b # _ \<Rightarrow> b),
      k\<lparr>ec_state := s', xfer_log := xfer_log k @ [charge_limit_msg m p]\<rparr>)"
  using assms
  by (simp add: charge_limit_control_def xfer_status_eq charge_response_data split: list.splits)

lemma charge_limit_control_log:
  "xfer_log (snd (charge_limit_control xfer m p (k\<lparr>ec_device := Some ec\<rparr>))) =
     xfer_log k @ [charge_limit_msg m p]"
  by (simp add: charge_limit_control_def cros_ec_cmd_xfer_status_def split: prod.splits)

lemma echo_ec_set:
  "echo_ec ec (charge_limit_msg CHG_LIMIT_SET_LIMIT p) s = ((2, [p, 0]), \<lparr>sim_max = p, sim_min = 0\<rparr>)"
  by (simp add: echo_ec_def charge_limit_msg_def)

lemma echo_ec_get:
  "echo_ec ec (charge_limit_msg CHG_LIMIT_GET_LIMIT p) s = ((2, [sim_max s, sim_min s]), s)"
  by (simp add: echo_ec_def charge_limit_msg_def)

subsection \<open>Decimal text\<close>

lemma isdigit_char_of: "(d :: nat) < 10 \<Longrightarrow> isdigit (char_of (48 + d))"
  by (simp add: isdigit_def)

lemma digit_val_char_of: "(d :: nat) < 10 \<Longrightarrow> digit_val (char_of (48 + d)) = d"
  by (simp add: digit_val_def)

lemma show_nat_digits: "list_all isdigit (show_nat n)"
proof (induction n rule: show_nat.induct)
  case (1 n)
  show ?case
  proof (cases "n < 10")
    case True
    then show ?thesis by (subst show_nat.simps) (simp add: isdigit_char_of)
  next
    case False
    with 1 show ?thesis by (subst show_nat.simps) (simp add: isdigit_char_of)
  qed
qed

lemma show_nat_not_empty: "show_nat n \<noteq> []"
  by (subst show_nat.simps) simp

lemma parse_integer_snoc:
  "parse_integer (ds @ [c]) = parse_integer ds * 10 + digit_val c"
  by (simp add: parse_integer_def)

lemma parse_integer_show_nat: "parse_integer (show_nat n) = n"
proof (induction n rule: show_nat.induct)
  case (1 n)
  show ?case
  proof (cases "n < 10")
    case True
    then show ?thesis
      by (subst show_nat.simps) (simp add: parse_integer_def digit_val_char_of)
  next
    case False
    with 1 have "parse_integer (show_nat (n div 10)) = n div 10" by simp
    with False show ?thesis
      by (subst show_nat.simps) (simp add: parse_integer_snoc digit_val_char_of)
  qed
qed

lemma kstrtoull_digits:
  assumes "ds \<noteq> []" and "list_all isdigit ds" and "parse_integer ds < 2 ^ 64"
  shows "kstrtoull ds = Inr (parse_integer ds)"
proof -
  obtain c r where cr: "ds = c # r" using assms(1) by (cases ds) auto
  with assms(2) have "isdigit c" by simp
  then have "c \<noteq> CHR ''+''" by (auto simp: isdigit_def)
  with cr have s1: "(case ds of [] \<Rightarrow> [] | c # r \<Rightarrow> if c = CHR ''+'' then r else c # r) = ds"
    by simp
  have tw: "takeWhile isdigit ds = ds"
    using assms(2) by (simp add: list_all_iff)
  have dw: "dropWhile isdigit ds = []"
    using assms(2) by (simp add: list_all_iff)
  have small: "\<not> 2 ^ 64 \<le> parse_integer ds" using assms(3) by simp
  show ?thesis
    unfolding kstrtoull_def s1 Let_def tw dw
    using small assms(1) by simp
qed

lemma kstrtouint_show_nat:
  assumes "n < 2 ^ 32"
  shows "kstrtouint (show_nat n) = Inr (word_of_nat n)"
proof -
  have "n < 2 ^ 64" using assms by simp
  then have "kstrtoull (show_nat n) = Inr n"
    using kstrtoull_digits [OF show_nat_not_empty show_nat_digits, of n]
    by (simp add: parse_integer_show_nat)
  then show ?thesis using assms by (simp add: kstrtouint_def)
qed


subsection \<open>The range check of the charge limit write\<close>

lemma sint_u32_small:
  assumes "uint (v :: u32) < 2 ^ 31"
  shows "sint v = uint v"
proof -
  have "- (2 ^ 31) \<le> (0 :: int)" by simp
  also have "0 \<le> uint v" by simp
  finally have "- (2 ^ 31) \<le> uint v" .
  from signed_take_bit_int_eq_self [OF this assms] show ?thesis
    by (simp add: sint_uint)
qed

lemma sint_u32_big:
  assumes "2 ^ 31 \<le> uint (v :: u32)"
  shows "sint v < 0"
proof (rule ccontr)
  assume "\<not> sint v < 0"
  then have nonneg: "0 \<le> sint v" by simp
  have "sint v < 2 ^ 31" using sint_lt [of v] by simp
  then have "sint v < 2 ^ 32" by simp
  with nonneg have "take_bit 32 (sint v) = sint v"
    by (simp add: take_bit_int_eq_self)
  moreover have "uint v = take_bit 32 (sint v)"
    using uint_sint [of v] by simp
  ultimately have "uint v = sint v" by simp
  with \<open>sint v < 2 ^ 31\<close> assms show False by simp
qed

lemma range_check_signed:
  "(100 < sint (v :: u32)) = (100 < uint v \<and> uint v < 2 ^ 31)"
proof (cases "uint v < 2 ^ 31")
  case True
  then show ?thesis by (simp add: sint_u32_small)
next
  case False
  then have "sint v < 0" by (simp add: sint_u32_big)
  with False show ?thesis by simp
qed

text \<open>
  The check rejects exactly the parsed values from 101 to \<open>2\<^sup>3\<^sup>1 - 1\<close>; from \<open>2\<^sup>3\<^sup>1\<close>
  on the value is negative as an \<^verbatim>\<open>int\<close> and passes.
\<close>

lemma set_threshold_rejects_positive_int:
  "kstrtouint buf = Inr v \<Longrightarrow> 100 < uint v \<Longrightarrow> uint v < 2 ^ 31 \<Longrightarrow>
   battery_set_threshold xfer buf n k = (- EINVAL, k)"
  by (simp add: battery_set_threshold_def range_check_signed)

lemma set_threshold_passes_negative_int:
  "kstrtouint buf = Inr v \<Longrightarrow> 2 ^ 31 \<le> uint v \<Longrightarrow>
   battery_set_threshold xfer buf n k =
     (case charge_limit_control xfer CHG_LIMIT_SET_LIMIT (ucast v) k of
        (ret, k') \<Rightarrow> if ret < 0 then (ret, k') else (sint n, k'))"
  by (simp add: battery_set_threshold_def range_check_signed)

lemma kstrtouint_max: "kstrtouint ''4294967295'' = Inr 4294967295"
  by (simp add: kstrtouint_defs errno_defs)

lemma ucast_max: "(4294967295 :: u8) = 255"
  by simp

lemma set_threshold_max_eq:
  "battery_set_threshold xfer ''4294967295'' n k =
     (case charge_limit_control xfer CHG_LIMIT_SET_LIMIT 255 k of
        (ret, k') \<Rightarrow> if ret < 0 then (ret, k') else (sint n, k'))"
  by (simp add: battery_set_threshold_def kstrtouint_max ucast_max)

text \<open>
  Claim C1 says that a write whose parsed value exceeds 100 fails with \<^verbatim>\<open>-EINVAL\<close> and makes
  no transfer. At the write \<^verbatim>\<open>4294967295\<close> the parser accepts the text, the stored bits
  are read back as the \<^verbatim>\<open>int\<close> -1, the comparison \<^verbatim>\<open>value > 100\<close> is false, and one
  SET\_LIMIT transfer with \<^verbatim>\<open>max_percentage\<close> 255 goes out, for every transfer primitive and
  every machine with a controller handle; against the echoing controller the write returns
  \<^verbatim>\<open>count\<close> and the controller keeps 255.
\<close>

theorem set_threshold_wraps_negative:
  "xfer_log (snd (battery_set_threshold xfer ''4294967295'' 10 (k\<lparr>ec_device := Some ec\<rparr>))) =
     xfer_log k @ [charge_limit_msg CHG_LIMIT_SET_LIMIT 255]
   \<and> fst (battery_set_threshold echo_ec ''4294967295'' 10 (attached_kernel s)) = 10
   \<and> sim_max (ec_state (snd (battery_set_threshold echo_ec ''4294967295'' 10 (attached_kernel s)))) = 255"
proof -
  have log: "xfer_log (snd (battery_set_threshold xfer ''4294967295'' 10 (k\<lparr>ec_device := Some ec\<rparr>))) =
     xfer_log k @ [charge_limit_msg CHG_LIMIT_SET_LIMIT 255]"
    using charge_limit_control_log [where xfer = xfer and m = CHG_LIMIT_SET_LIMIT and p = 255 and k = k and ec = ec]
    by (simp add: set_threshold_max_eq case_prod_beta)
  have run: "charge_limit_control echo_ec CHG_LIMIT_SET_LIMIT 255 (attached_kernel s) =
      (255, (attached_kernel s)\<lparr>ec_state := \<lparr>sim_max = 255, sim_min = 0\<rparr>,
          xfer_log := xfer_log (attached_kernel s) @ [charge_limit_msg CHG_LIMIT_SET_LIMIT 255]\<rparr>)"
    using charge_limit_control_eq [where xfer = echo_ec and k = "attached_kernel s" and ec = 7
        and m = CHG_LIMIT_SET_LIMIT and p = 255, OF _ echo_ec_set]
    by (simp add: attached_kernel_fields)
  have ret: "fst (battery_set_threshold echo_ec ''4294967295'' 10 (attached_kernel s)) = 10"
    by (simp add: set_threshold_max_eq run)
  have st: "sim_max (ec_state (snd (battery_set_threshold echo_ec ''4294967295'' 10 (attached_kernel s)))) = 255"
    by (simp add: set_threshold_max_eq run)
  from log ret st show ?thesis by simp
qed

subsection \<open>Write, then read, against the echoing controller\<close>

lemma charge_limit_control_handle:
  "ec_device (snd (charge_limit_control xfer m p k)) = ec_device k"
  by (simp add: charge_limit_control_def cros_ec_cmd_xfer_status_def case_prod_beta
      split: option.splits)

lemma echo_set_then_get:
  assumes "ec_device k = Some ec"
  shows "charge_limit_control echo_ec CHG_LIMIT_SET_LIMIT p k =
           (uint p, k\<lparr>ec_state := \<lparr>sim_max = p, sim_min = 0\<rparr>,
                      xfer_log := xfer_log k @ [charge_limit_msg CHG_LIMIT_SET_LIMIT p]\<rparr>)"
    and "fst (charge_limit_control echo_ec CHG_LIMIT_GET_LIMIT 0
               (snd (charge_limit_control echo_ec CHG_LIMIT_SET_LIMIT p k))) = uint p"
proof -
  show set: "charge_limit_control echo_ec CHG_LIMIT_SET_LIMIT p k =
           (uint p, k\<lparr>ec_state := \<lparr>sim_max = p, sim_min = 0\<rparr>,
                      xfer_log := xfer_log k @ [charge_limit_msg CHG_LIMIT_SET_LIMIT p]\<rparr>)"
    using charge_limit_control_eq [where xfer = echo_ec, OF assms echo_ec_set] by simp
  let ?k' = "k\<lparr>ec_state := \<lparr>sim_max = p, sim_min = 0\<rparr>,
                xfer_log := xfer_log k @ [charge_limit_msg CHG_LIMIT_SET_LIMIT p]\<rparr>"
  have h: "ec_device ?k' = Some ec" using assms by simp
  have "fst (charge_limit_control echo_ec CHG_LIMIT_GET_LIMIT 0 ?k') = uint p"
    using charge_limit_control_eq [where xfer = echo_ec and k = ?k', OF h echo_ec_get] by simp
  with set show "fst (charge_limit_control echo_ec CHG_LIMIT_GET_LIMIT 0
               (snd (charge_limit_control echo_ec CHG_LIMIT_SET_LIMIT p k))) = uint p"
    by simp
qed

lemma percent_word:
  assumes "p \<le> 100"
  shows "uint (word_of_nat p :: u8) = int p"
    and "(ucast (word_of_nat p :: u32) :: u8) = word_of_nat p"
    and "\<not> 100 < sint (word_of_nat p :: u32)"
proof -
  have p8: "p < 2 ^ 8" and p32: "p < 2 ^ 32" and p31: "int p < 2 ^ 31" using assms by simp_all
  show "uint (word_of_nat p :: u8) = int p"
    using p8 by (simp add: unsigned_of_nat take_bit_nat_eq_self)
  have "unat (ucast (word_of_nat p :: u32) :: u8) = unat (word_of_nat p :: u8)"
    using p8 p32 by (simp add: unsigned_ucast_eq unsigned_of_nat take_bit_nat_eq_self)
  then show "(ucast (word_of_nat p :: u32) :: u8) = word_of_nat p"
    by (simp add: word_unat_eq_iff)
  have "uint (word_of_nat p :: u32) = int p"
    using p32 by (simp add: unsigned_of_nat take_bit_nat_eq_self)
  with p31 assms show "\<not> 100 < sint (word_of_nat p :: u32)"
    by (simp add: range_check_signed)
qed

lemma kstrtouint_80: "kstrtouint ''80'' = Inr (word_of_nat 80)"
  by (simp add: kstrtouint_defs errno_defs)

lemma show_nat_80: "show_nat 80 = ''80''"
  by code_simp

text \<open>
  Claim C3. For every percentage \<open>p\<close> from 0 to 100 and every machine with a controller
  handle, setting the limit to \<open>p\<close> and then reading it, against the controller that keeps
  the SET\_LIMIT request's \<^verbatim>\<open>max_percentage\<close> and echoes it unclamped, gives \<open>p\<close> back:
  at the level of \<open>charge_limit_control\<close>, where the controller then keeps the maximum
  \<open>p\<close> and the minimum 0, and at the level of the attribute, where any text that parses
  to \<open>p\<close> (the decimal form of \<open>p\<close> is one) is written, the write returns
  \<^verbatim>\<open>count\<close> as \<^verbatim>\<open>ssize_t\<close>, and the read emits the decimal form of \<open>p\<close> and a
  newline.
\<close>

theorem threshold_round_trip:
  assumes "ec_device k = Some ec" and "p \<le> 100"
  shows "fst (charge_limit_control echo_ec CHG_LIMIT_GET_LIMIT 0
               (snd (charge_limit_control echo_ec CHG_LIMIT_SET_LIMIT (word_of_nat p) k))) = int p
    \<and> ec_state (snd (charge_limit_control echo_ec CHG_LIMIT_SET_LIMIT (word_of_nat p) k))
        = \<lparr>sim_max = word_of_nat p, sim_min = 0\<rparr>
    \<and> kstrtouint (show_nat p) = Inr (word_of_nat p)
    \<and> (kstrtouint buf = Inr (word_of_nat p) \<longrightarrow>
         fst (battery_set_threshold echo_ec buf n k) = sint n
         \<and> fst (battery_get_threshold echo_ec page (snd (battery_set_threshold echo_ec buf n k)))
             = (int (length (show_nat p)) + 1, show_nat p @ [CHR 0x0A]))"
proof -
  let ?w = "word_of_nat p :: u8"
  note pw = percent_word [OF assms(2)]
  have core: "fst (charge_limit_control echo_ec CHG_LIMIT_GET_LIMIT 0
               (snd (charge_limit_control echo_ec CHG_LIMIT_SET_LIMIT ?w k))) = int p"
    using echo_set_then_get(2) [OF assms(1), of ?w] pw(1) by simp
  have kept: "ec_state (snd (charge_limit_control echo_ec CHG_LIMIT_SET_LIMIT ?w k))
        = \<lparr>sim_max = ?w, sim_min = 0\<rparr>"
    using echo_set_then_get(1) [OF assms(1), of ?w] by simp
  have parses: "kstrtouint (show_nat p) = Inr (word_of_nat p)"
    using assms(2) by (intro kstrtouint_show_nat) simp
  have attr: "kstrtouint buf = Inr (word_of_nat p) \<longrightarrow>
         fst (battery_set_threshold echo_ec buf n k) = sint n
         \<and> fst (battery_get_threshold echo_ec page (snd (battery_set_threshold echo_ec buf n k)))
             = (int (length (show_nat p)) + 1, show_nat p @ [CHR 0x0A])"
  proof
    assume parsed: "kstrtouint buf = Inr (word_of_nat p)"
    have set: "battery_set_threshold echo_ec buf n k =
        (sint n, snd (charge_limit_control echo_ec CHG_LIMIT_SET_LIMIT ?w k))"
      using parsed pw(2,3) echo_set_then_get(1) [OF assms(1), of ?w]
      by (simp add: battery_set_threshold_def)
    have get: "fst (battery_get_threshold echo_ec page
                 (snd (charge_limit_control echo_ec CHG_LIMIT_SET_LIMIT ?w k)))
               = (int (length (show_nat p)) + 1, show_nat p @ [CHR 0x0A])"
      using core by (simp add: battery_get_threshold_def case_prod_beta sysfs_emit_d_def)
    from set get show "fst (battery_set_threshold echo_ec buf n k) = sint n
         \<and> fst (battery_get_threshold echo_ec page (snd (battery_set_threshold echo_ec buf n k)))
             = (int (length (show_nat p)) + 1, show_nat p @ [CHR 0x0A])"
      by simp
  qed
  from core kept parses attr show ?thesis by blast
qed

theorem threshold_round_trip_witness:
  "fst (battery_set_threshold echo_ec ''80'' 2 (attached_kernel \<lparr>sim_max = 0, sim_min = 0\<rparr>)) = 2
   \<and> fst (battery_get_threshold echo_ec []
        (snd (battery_set_threshold echo_ec ''80'' 2 (attached_kernel \<lparr>sim_max = 0, sim_min = 0\<rparr>))))
      = (3, [CHR ''8'', CHR ''0'', CHR 0x0A])"
  using threshold_round_trip [where k = "attached_kernel \<lparr>sim_max = 0, sim_min = 0\<rparr>" and ec = 7
      and p = 80 and buf = "''80''" and n = 2 and page = "[]"]
  by (simp add: attached_kernel_fields kstrtouint_80 show_nat_80)

subsection \<open>Operations without a controller handle\<close>



subsection \<open>Responses shorter than the response structure\<close>

text \<open>
  Claim C5 says that a transfer which reports success with fewer bytes than the command's
  response structure makes the operation fail, and that the partial payload is never
  interpreted. Against a transfer that reports success with no byte at all, the charge
  limit query returns 8: the request's own \<^verbatim>\<open>modes\<close> byte (GET\_LIMIT), which shares
  byte 0 of the union with the response's \<^verbatim>\<open>max_percentage\<close>. With one byte received
  out of two, that byte is returned.
\<close>

theorem short_response_is_interpreted:
  "fst (charge_limit_control (fixed_ec 0 []) CHG_LIMIT_GET_LIMIT 0 (attached_kernel ())) = 8
   \<and> fst (charge_limit_control (fixed_ec 1 [55]) CHG_LIMIT_GET_LIMIT 0 (attached_kernel ())) = 55"
proof -
  have a: "fst (charge_limit_control (fixed_ec 0 []) CHG_LIMIT_GET_LIMIT 0 (attached_kernel ())) = 8"
    using charge_limit_control_eq [where xfer = "fixed_ec 0 []" and k = "attached_kernel ()"
        and ec = 7 and m = CHG_LIMIT_GET_LIMIT and p = 0 and ret = 0 and rx = "[]" and s' = "()"]
    by (simp add: attached_kernel_fields fixed_ec_def)
  have b: "fst (charge_limit_control (fixed_ec 1 [55]) CHG_LIMIT_GET_LIMIT 0 (attached_kernel ())) = 55"
    using charge_limit_control_eq [where xfer = "fixed_ec 1 [55]" and k = "attached_kernel ()"
        and ec = 7 and m = CHG_LIMIT_GET_LIMIT and p = 0 and ret = 1 and rx = "[55]" and s' = "()"]
    by (simp add: attached_kernel_fields fixed_ec_def)
  from a b show ?thesis by simp
qed

text \<open>
  Claim C5 as amended. Neither function compares the number of bytes received with the size
  of the response structure: the status of the transfer counts only through its sign. On a
  non-negative status \<open>charge_limit_control\<close> returns byte 0 of the union (the first byte
  received, or the request's \<^verbatim>\<open>modes\<close> byte when none was) and \<open>kb_led_get\<close> returns
  the \<^verbatim>\<open>percent\<close> byte when the \<^verbatim>\<open>enabled\<close> byte is not 0, and 0 otherwise, where a
  byte that was not received reads as the 0 of \<^verbatim>\<open>memset\<close>. On a negative status
  \<open>charge_limit_control\<close> returns \<^verbatim>\<open>-EIO\<close> and \<open>kb_led_get\<close> returns 0.
\<close>

theorem response_size_not_checked:
  assumes "ec_device k = Some ec"
  shows "(xfer ec (charge_limit_msg m p) (ec_state k) = ((ret, rx), s') \<longrightarrow>
            fst (charge_limit_control xfer m p k) =
              (if ret < 0 then - EIO
               else uint (case rx of [] \<Rightarrow> modes_bits m | b # _ \<Rightarrow> b)))
       \<and> (xfer ec kb_get_msg (ec_state k) = ((ret', rx'), s'') \<longrightarrow>
            fst (kb_led_get xfer k) =
              (if ret' < 0 then 0
               else (case rx' of [] \<Rightarrow> 0 | [b] \<Rightarrow> 0
                     | b # e # _ \<Rightarrow> if e \<noteq> 0 then uint b else 0)))"
proof (intro conjI impI)
  assume "xfer ec (charge_limit_msg m p) (ec_state k) = ((ret, rx), s')"
  from charge_limit_control_eq [where xfer = xfer, OF assms this]
  show "fst (charge_limit_control xfer m p k) =
      (if ret < 0 then - EIO else uint (case rx of [] \<Rightarrow> modes_bits m | b # _ \<Rightarrow> b))"
    by simp
next
  assume "xfer ec kb_get_msg (ec_state k) = ((ret', rx'), s'')"
  from kb_led_get_eq [where xfer = xfer, OF assms this]
  show "fst (kb_led_get xfer k) =
      (if ret' < 0 then 0
       else (case rx' of [] \<Rightarrow> 0 | [b] \<Rightarrow> 0 | b # e # _ \<Rightarrow> if e \<noteq> 0 then uint b else 0))" .
qed

theorem response_size_not_checked_witness:
  "fst (charge_limit_control (fixed_ec 0 []) CHG_LIMIT_SET_LIMIT 80 (attached_kernel ())) = 2
   \<and> fst (kb_led_get (fixed_ec 1 [77]) (attached_kernel ())) = 0
   \<and> fst (charge_limit_control failing_ec CHG_LIMIT_GET_LIMIT 0 (attached_kernel ())) = - 5"
proof -
  have a: "fst (charge_limit_control (fixed_ec 0 []) CHG_LIMIT_SET_LIMIT 80 (attached_kernel ())) = 2"
    using response_size_not_checked [where xfer = "fixed_ec 0 []" and k = "attached_kernel ()"
        and ec = 7 and m = CHG_LIMIT_SET_LIMIT and p = 80 and ret = 0 and rx = "[]" and s' = "()"]
    by (simp add: attached_kernel_fields fixed_ec_def)
  have b: "fst (kb_led_get (fixed_ec 1 [77]) (attached_kernel ())) = 0"
    using response_size_not_checked [where xfer = "fixed_ec 1 [77]" and k = "attached_kernel ()"
        and ec = 7 and ret' = 1 and rx' = "[77]" and s'' = "()"]
    by (simp add: attached_kernel_fields fixed_ec_def)
  have c: "fst (charge_limit_control failing_ec CHG_LIMIT_GET_LIMIT 0 (attached_kernel ())) = - 5"
    using response_size_not_checked [where xfer = failing_ec and k = "attached_kernel ()"
        and ec = 7 and m = CHG_LIMIT_GET_LIMIT and p = 0 and ret = "- EIO" and rx = "[]" and s' = "()"]
    by (simp add: attached_kernel_fields failing_ec_def EIO_def)
  from a b c show ?thesis by simp
qed

subsection \<open>The text of the charge limit attribute\<close>

lemma show_nat_200: "show_nat 200 = ''200''"
  by code_simp

lemma get_threshold_eq:
  "fst (battery_get_threshold xfer page k) =
     (let r = fst (charge_limit_control xfer CHG_LIMIT_GET_LIMIT 0 k)
      in if r < 0 then (r, page)
         else (int (length (show_nat (nat r))) + 1, show_nat (nat r) @ [CHR 0x0A]))"
  by (simp add: battery_get_threshold_def case_prod_beta sysfs_emit_d_def Let_def)

lemma charge_limit_control_range:
  "fst (charge_limit_control xfer m p k) < 0 \<or>
   (\<exists>b :: u8. fst (charge_limit_control xfer m p k) = uint b)"
proof (cases "ec_device k")
  case None
  then show ?thesis by (simp add: charge_limit_control_def ENODEV_def)
next
  case (Some ec)
  obtain r rx s' where "xfer ec (charge_limit_msg m p) (ec_state k) = ((r, rx), s')"
    by (metis surj_pair)
  from charge_limit_control_eq [where xfer = xfer, OF Some this] show ?thesis
    by (auto simp: EIO_def)
qed

text \<open>
  Claim C9 says that every successful read emits a decimal integer from 0 to 100 and a
  newline, whatever byte from 0 to 255 the controller returns. With the controller
  answering 200 the read emits \<^verbatim>\<open>200\<close> and a newline, and returns 4.
\<close>

theorem read_emits_200:
  "fst (battery_get_threshold (fixed_ec 2 [200, 0]) [] (attached_kernel ()))
     = (4, [CHR ''2'', CHR ''0'', CHR ''0'', CHR 0x0A])"
proof -
  have "fst (charge_limit_control (fixed_ec 2 [200, 0]) CHG_LIMIT_GET_LIMIT 0 (attached_kernel ())) = 200"
    using charge_limit_control_eq [where xfer = "fixed_ec 2 [200, 0]" and k = "attached_kernel ()"
        and ec = 7 and m = CHG_LIMIT_GET_LIMIT and p = 0 and ret = 2 and rx = "[200, 0]" and s' = "()"]
    by (simp add: attached_kernel_fields fixed_ec_def)
  then show ?thesis
    by (simp add: battery_get_threshold_def case_prod_beta sysfs_emit_d_def show_nat_200)
qed

text \<open>
  Claim C9 as amended. Every successful read (a non-negative return) emits the decimal form
  of an integer from 0 to 255 followed by a newline, and returns the length of that text;
  when the controller answered, the integer is the first byte of its response,
  \<^verbatim>\<open>max_percentage\<close>, unchanged.
\<close>

theorem read_emits_response_byte:
  "(0 \<le> fst (fst (battery_get_threshold xfer page k)) \<longrightarrow>
      (\<exists>n. n \<le> 255 \<and> fst (battery_get_threshold xfer page k)
                = (int (length (show_nat n)) + 1, show_nat n @ [CHR 0x0A])))
   \<and> (ec_device k = Some ec
        \<and> xfer ec (charge_limit_msg CHG_LIMIT_GET_LIMIT 0) (ec_state k) = ((ret, b # rest), s')
        \<and> 0 \<le> ret \<longrightarrow>
      fst (battery_get_threshold xfer page k)
        = (int (length (show_nat (unat b))) + 1, show_nat (unat b) @ [CHR 0x0A]))"
proof (intro conjI impI)
  assume ok: "0 \<le> fst (fst (battery_get_threshold xfer page k))"
  let ?r = "fst (charge_limit_control xfer CHG_LIMIT_GET_LIMIT 0 k)"
  have "\<not> ?r < 0"
    using ok by (auto simp: get_threshold_eq Let_def split: if_splits)
  with charge_limit_control_range [of xfer CHG_LIMIT_GET_LIMIT 0 k]
  obtain b :: u8 where b: "?r = uint b" by auto
  have "unat b < 2 ^ 8" using unsigned_less [of b, where ?'a = nat] by simp
  then have "unat b \<le> 255" by simp
  moreover have "fst (battery_get_threshold xfer page k)
      = (int (length (show_nat (unat b))) + 1, show_nat (unat b) @ [CHR 0x0A])"
    using b by (simp add: get_threshold_eq)
  ultimately show "\<exists>n. n \<le> 255 \<and> fst (battery_get_threshold xfer page k)
                = (int (length (show_nat n)) + 1, show_nat n @ [CHR 0x0A])"
    by blast
next
  assume "ec_device k = Some ec
        \<and> xfer ec (charge_limit_msg CHG_LIMIT_GET_LIMIT 0) (ec_state k) = ((ret, b # rest), s')
        \<and> 0 \<le> ret"
  then have h: "ec_device k = Some ec"
    and x: "xfer ec (charge_limit_msg CHG_LIMIT_GET_LIMIT 0) (ec_state k) = ((ret, b # rest), s')"
    and ok: "0 \<le> ret" by simp_all
  from charge_limit_control_eq [where xfer = xfer, OF h x] ok
  have "fst (charge_limit_control xfer CHG_LIMIT_GET_LIMIT 0 k) = uint b" by simp
  then show "fst (battery_get_threshold xfer page k)
        = (int (length (show_nat (unat b))) + 1, show_nat (unat b) @ [CHR 0x0A])"
    by (simp add: get_threshold_eq)
qed

theorem read_emits_response_byte_witness:
  "fst (battery_get_threshold (fixed_ec 2 [80, 0]) [] (attached_kernel ()))
     = (3, [CHR ''8'', CHR ''0'', CHR 0x0A])"
  using read_emits_response_byte [where xfer = "fixed_ec 2 [80, 0]" and k = "attached_kernel ()"
      and ec = 7 and ret = 2 and b = 80 and rest = "[0]" and s' = "()" and page = "[]"]
  by (simp add: attached_kernel_fields fixed_ec_def show_nat_80)

subsection \<open>Attach\<close>

lemmas attach_defs = framework_add_def bus_find_device_by_name_def
  FRAMEWORK_LAPTOP_EC_DEVICE_NAME_def battery_hook_register_def

lemma dmi_check_system_eq:
  "(dmi_check_system framework_laptop_dmi_table k = 0) =
     (\<not> (strstr (dmi_sys_vendor k) ''Framework'' \<and> strstr (dmi_product_name k) ''Laptop''))"
  by (simp add: dmi_defs)

text \<open>
  Claim C6 says that when a step after the lookup of the controller fails, attach undoes
  what it has done, the reference to the controller included, before it reports the
  failure. On a matching machine where \<^verbatim>\<open>devm_kzalloc\<close> returns NULL, and on one where
  \<^verbatim>\<open>devm_led_classdev_register\<close> returns \<^verbatim>\<open>-ENOMEM\<close>, \<open>framework_add\<close> reports
  \<^verbatim>\<open>-ENOMEM\<close> with \<^verbatim>\<open>ec_device\<close> still set and the reference taken by
  \<^verbatim>\<open>bus_find_device_by_name\<close> still held: the count of device 7 has gone from 1 to 2.
\<close>

theorem failed_attach_keeps_handle:
  "fst (framework_add \<lparr>kzalloc_ok = False, led_register_ret = 0\<rparr>
          (boot_kernel ''Framework'' ''Laptop'' s)) = - ENOMEM
   \<and> ec_device (snd (framework_add \<lparr>kzalloc_ok = False, led_register_ret = 0\<rparr>
          (boot_kernel ''Framework'' ''Laptop'' s))) = Some 7
   \<and> refcount (boot_kernel ''Framework'' ''Laptop'' s) 7 = 1
   \<and> refcount (snd (framework_add \<lparr>kzalloc_ok = False, led_register_ret = 0\<rparr>
          (boot_kernel ''Framework'' ''Laptop'' s))) 7 = 2
   \<and> fst (framework_add \<lparr>kzalloc_ok = True, led_register_ret = - ENOMEM\<rparr>
          (boot_kernel ''Framework'' ''Laptop'' s)) = - ENOMEM
   \<and> ec_device (snd (framework_add \<lparr>kzalloc_ok = True, led_register_ret = - ENOMEM\<rparr>
          (boot_kernel ''Framework'' ''Laptop'' s))) = Some 7
   \<and> refcount (snd (framework_add \<lparr>kzalloc_ok = True, led_register_ret = - ENOMEM\<rparr>
          (boot_kernel ''Framework'' ''Laptop'' s))) 7 = 2"
  by (simp add: attach_defs dmi_check_system_eq boot_kernel_def ENOMEM_def)

text \<open>
  Claim C7 says that attach fails, without looking the controller up and without
  registering anything, whenever the vendor string is not \<^verbatim>\<open>Framework\<close> or the product
  string is not \<^verbatim>\<open>Laptop\<close>. On a machine whose product string is \<^verbatim>\<open>Laptop 16\<close> the
  table matches, since \<^verbatim>\<open>DMI_MATCH\<close> looks for a substring: attach succeeds, resolves
  the handle and registers the LED device and the battery hook.
\<close>

theorem laptop_16_attaches:
  "dmi_product_name (boot_kernel ''Framework'' ''Laptop 16'' ()) \<noteq> ''Laptop''
   \<and> fst (framework_add \<lparr>kzalloc_ok = True, led_register_ret = 0\<rparr>
            (boot_kernel ''Framework'' ''Laptop 16'' ())) = 0
   \<and> ec_device (snd (framework_add \<lparr>kzalloc_ok = True, led_register_ret = 0\<rparr>
            (boot_kernel ''Framework'' ''Laptop 16'' ()))) = Some 7
   \<and> led_classdevs (snd (framework_add \<lparr>kzalloc_ok = True, led_register_ret = 0\<rparr>
            (boot_kernel ''Framework'' ''Laptop 16'' ()))) = [kb_led_classdev_name]
   \<and> battery_hooks (snd (framework_add \<lparr>kzalloc_ok = True, led_register_ret = 0\<rparr>
            (boot_kernel ''Framework'' ''Laptop 16'' ()))) = [framework_laptop_battery_hook]"
  by (simp add: attach_defs dmi_check_system_eq boot_kernel_def)

text \<open>
  Claim C7 as amended. The platform check fails exactly when the vendor string does not
  contain \<^verbatim>\<open>Framework\<close> or the product string does not contain \<^verbatim>\<open>Laptop\<close>. When it
  fails, \<open>framework_add\<close> returns \<^verbatim>\<open>-ENODEV\<close> and leaves the machine as it was: the
  controller is not looked up, \<^verbatim>\<open>ec_device\<close> is not written, and neither the LED device
  nor the battery hook is registered.
\<close>

theorem unsupported_platform_stays_detached:
  "(dmi_check_system framework_laptop_dmi_table k = 0) =
     (\<not> strstr (dmi_sys_vendor k) ''Framework'' \<or> \<not> strstr (dmi_product_name k) ''Laptop'')
   \<and> (dmi_check_system framework_laptop_dmi_table k = 0 \<longrightarrow>
        framework_add env k = (- ENODEV, k))"
  by (simp add: dmi_check_system_eq framework_add_def)

theorem unsupported_platform_stays_detached_witness:
  "framework_add \<lparr>kzalloc_ok = True, led_register_ret = 0\<rparr> (boot_kernel ''Acme'' ''Laptop'' ())
     = (- 19, boot_kernel ''Acme'' ''Laptop'' ())"
  using unsupported_platform_stays_detached
    [of "boot_kernel ''Acme'' ''Laptop'' ()" "\<lparr>kzalloc_ok = True, led_register_ret = 0\<rparr>"]
  by (simp add: boot_kernel_def ENODEV_def)

subsection \<open>Detach and the controller handle\<close>

lemma framework_remove_handle: "ec_device (framework_remove k) = ec_device k"
  by (simp add: framework_remove_def put_device_def battery_hook_unregister_def Let_def
      split: option.splits)

text \<open>
  Claim C10 says that detach resets the handle to absent, so that no operation can see a
  released handle afterwards. After attach and detach on the matching machine
  \<^verbatim>\<open>ec_device\<close> still holds device 7, whose reference detach has dropped (the count is
  back from 2 to 1), and a brightness query made then sends a transfer to it.
\<close>

theorem detach_leaves_handle:
  "ec_device (framework_remove (attached_kernel ())) = Some 7
   \<and> refcount (attached_kernel ()) 7 = 2
   \<and> refcount (framework_remove (attached_kernel ())) 7 = 1
   \<and> xfer_log (snd (kb_led_get (fixed_ec 2 [50, 1]) (framework_remove (attached_kernel ()))))
       = [kb_get_msg]"
proof -
  have h: "ec_device (framework_remove (attached_kernel ())) = Some 7"
    by (simp add: framework_remove_handle attached_kernel_fields)
  have r: "refcount (framework_remove (attached_kernel ())) 7 = 1"
    by (simp add: framework_remove_def put_device_def battery_hook_unregister_def Let_def
        attached_kernel_fields)
  have l: "xfer_log (framework_remove (attached_kernel ())) = []"
    by (simp add: framework_remove_def put_device_def battery_hook_unregister_def Let_def
        attached_kernel_fields)
  have "xfer_log (snd (kb_led_get (fixed_ec 2 [50, 1]) (framework_remove (attached_kernel ()))))
       = [kb_get_msg]"
    using h l by (simp add: kb_led_get_def cros_ec_cmd_xfer_status_def fixed_ec_def)
  with h r show ?thesis by (simp add: attached_kernel_fields)
qed

text \<open>
  Claim C10 as amended. \<open>framework_remove\<close> drops one reference to the device
  \<^verbatim>\<open>ec_device\<close> points to and leaves \<^verbatim>\<open>ec_device\<close> as it is. \<open>framework_add\<close> is the
  only function that writes \<^verbatim>\<open>ec_device\<close>: when the platform check passes it stores the
  result of the lookup, found or not, whether or not the rest of attach succeeds; when the
  check fails it does not write. No feature operation writes \<^verbatim>\<open>ec_device\<close>.
\<close>

theorem handle_written_by_attach_only:
  "ec_device (framework_remove k) = ec_device k
   \<and> refcount (framework_remove k) =
       (case ec_device k of None \<Rightarrow> refcount k
        | Some d \<Rightarrow> (refcount k)(d := refcount k d - 1))
   \<and> ec_device (snd (framework_add env k)) =
       (if dmi_check_system framework_laptop_dmi_table k = 0 then ec_device k
        else map_of (platform_bus k) FRAMEWORK_LAPTOP_EC_DEVICE_NAME)
   \<and> ec_device (snd (charge_limit_control xfer m p k)) = ec_device k
   \<and> ec_device (snd (battery_get_threshold xfer page k)) = ec_device k
   \<and> ec_device (snd (battery_set_threshold xfer buf n k)) = ec_device k
   \<and> ec_device (snd (kb_led_get xfer k)) = ec_device k
   \<and> ec_device (snd (kb_led_set xfer b k)) = ec_device k"
proof -
  have rc: "refcount (framework_remove k) =
       (case ec_device k of None \<Rightarrow> refcount k
        | Some d \<Rightarrow> (refcount k)(d := refcount k d - 1))"
    by (simp add: framework_remove_def put_device_def battery_hook_unregister_def Let_def
        split: option.splits)
  have add: "ec_device (snd (framework_add env k)) =
       (if dmi_check_system framework_laptop_dmi_table k = 0 then ec_device k
        else map_of (platform_bus k) FRAMEWORK_LAPTOP_EC_DEVICE_NAME)"
    by (simp add: framework_add_def bus_find_device_by_name_def battery_hook_register_def
        Let_def split: option.splits)
  have get: "ec_device (snd (battery_get_threshold xfer page k)) = ec_device k"
    using charge_limit_control_handle [of xfer CHG_LIMIT_GET_LIMIT 0 k]
    by (simp add: battery_get_threshold_def case_prod_beta)
  have set: "ec_device (snd (battery_set_threshold xfer buf n k)) = ec_device k"
    using charge_limit_control_handle [of xfer CHG_LIMIT_SET_LIMIT _ k]
    by (simp add: battery_set_threshold_def case_prod_beta split: sum.splits)
  have kget: "ec_device (snd (kb_led_get xfer k)) = ec_device k"
    by (simp add: kb_led_get_def cros_ec_cmd_xfer_status_def case_prod_beta split: option.splits)
  have kset: "ec_device (snd (kb_led_set xfer b k)) = ec_device k"
    by (simp add: kb_led_set_def cros_ec_cmd_xfer_status_def case_prod_beta split: option.splits)
  from framework_remove_handle [of k] rc add charge_limit_control_handle [of xfer m p k]
    get set kget kset
  show ?thesis by simp
qed

theorem handle_written_by_attach_only_witness:
  "ec_device (framework_remove (attached_kernel ())) = Some 7
   \<and> ec_device (snd (kb_led_set failing_ec 50 (attached_kernel ()))) = Some 7"
  using handle_written_by_attach_only [of "attached_kernel ()" _ failing_ec _ _ _ _ _ 50]
  by (simp add: attached_kernel_fields)

subsection \<open>Battery hook callbacks\<close>

text \<open>
  Claim C8 says that the attribute group is installed if and only if the battery is named
  \<^verbatim>\<open>BAT1\<close>. A battery named \<^verbatim>\<open>BAT1\<close> for which \<^verbatim>\<open>device_add_groups\<close> finds no
  memory is rejected with \<^verbatim>\<open>-ENODEV\<close>, as a battery of another name is, and nothing is
  installed; so is the same battery added a second time, when sysfs refuses the attribute
  that is already there.
\<close>

theorem bat1_add_can_be_rejected:
  "framework_laptop_battery_add nomem_add_groups \<lparr>desc_name = ''BAT1'', dev_attrs = []\<rparr>
     = (- ENODEV, \<lparr>desc_name = ''BAT1'', dev_attrs = []\<rparr>)
   \<and> framework_laptop_battery_add sysfs_add_groups \<lparr>desc_name = ''BAT1'', dev_attrs = []\<rparr>
     = (0, \<lparr>desc_name = ''BAT1'', dev_attrs = [''charge_control_end_threshold'']\<rparr>)
   \<and> framework_laptop_battery_add sysfs_add_groups
        \<lparr>desc_name = ''BAT1'', dev_attrs = [''charge_control_end_threshold'']\<rparr>
     = (- ENODEV, \<lparr>desc_name = ''BAT1'', dev_attrs = [''charge_control_end_threshold'']\<rparr>)"
  by (simp add: framework_laptop_battery_add_def nomem_add_groups_def sysfs_add_groups_def
      framework_laptop_battery_groups_def errno_defs)

text \<open>
  Claim C8 as amended. \<open>framework_laptop_battery_add\<close> calls \<^verbatim>\<open>device_add_groups\<close>
  exactly for the battery named \<^verbatim>\<open>BAT1\<close>: for any other name it returns \<^verbatim>\<open>-ENODEV\<close>
  and leaves the battery untouched, whatever \<^verbatim>\<open>device_add_groups\<close> would do. For
  \<^verbatim>\<open>BAT1\<close> the battery is what \<^verbatim>\<open>device_add_groups\<close> makes of it, and the result is 0
  when that call returns 0 and \<^verbatim>\<open>-ENODEV\<close> otherwise; so the callback returns 0 exactly
  when the name is \<^verbatim>\<open>BAT1\<close> and the installation succeeded. With the kernel's sysfs the
  group is installed and 0 returned exactly when the name is \<^verbatim>\<open>BAT1\<close> and the attribute
  is not there yet; in every other case the battery is unchanged and the result is
  \<^verbatim>\<open>-ENODEV\<close>. \<open>framework_laptop_battery_remove\<close> returns 0 for every battery.
\<close>

theorem battery_add_installs_on_success:
  "(desc_name battery \<noteq> ''BAT1'' \<longrightarrow>
      framework_laptop_battery_add device_add_groups battery = (- ENODEV, battery))
   \<and> (desc_name battery = ''BAT1'' \<longrightarrow>
        framework_laptop_battery_add device_add_groups battery
          = (if fst (device_add_groups battery framework_laptop_battery_groups) = 0 then 0
             else - ENODEV,
             snd (device_add_groups battery framework_laptop_battery_groups)))
   \<and> (fst (framework_laptop_battery_add device_add_groups battery) = 0
       \<longleftrightarrow> desc_name battery = ''BAT1''
            \<and> fst (device_add_groups battery framework_laptop_battery_groups) = 0)
   \<and> framework_laptop_battery_add sysfs_add_groups battery
        = (if desc_name battery = ''BAT1''
              \<and> ''charge_control_end_threshold'' \<notin> set (dev_attrs battery)
           then (0, battery\<lparr>dev_attrs := dev_attrs battery @ [''charge_control_end_threshold'']\<rparr>)
           else (- ENODEV, battery))
   \<and> framework_laptop_battery_remove device_remove_groups battery
        = (0, device_remove_groups battery framework_laptop_battery_groups)"
proof -
  have other: "desc_name battery \<noteq> ''BAT1'' \<longrightarrow>
      framework_laptop_battery_add device_add_groups battery = (- ENODEV, battery)"
    by (simp add: framework_laptop_battery_add_def)
  have bat1: "desc_name battery = ''BAT1'' \<longrightarrow>
        framework_laptop_battery_add device_add_groups battery
          = (if fst (device_add_groups battery framework_laptop_battery_groups) = 0 then 0
             else - ENODEV,
             snd (device_add_groups battery framework_laptop_battery_groups))"
    by (simp add: framework_laptop_battery_add_def case_prod_beta)
  have accepted: "fst (framework_laptop_battery_add device_add_groups battery) = 0
       \<longleftrightarrow> desc_name battery = ''BAT1''
            \<and> fst (device_add_groups battery framework_laptop_battery_groups) = 0"
    by (simp add: framework_laptop_battery_add_def case_prod_beta ENODEV_def)
  have sysfs: "framework_laptop_battery_add sysfs_add_groups battery
        = (if desc_name battery = ''BAT1''
              \<and> ''charge_control_end_threshold'' \<notin> set (dev_attrs battery)
           then (0, battery\<lparr>dev_attrs := dev_attrs battery @ [''charge_control_end_threshold'']\<rparr>)
           else (- ENODEV, battery))"
    by (simp add: framework_laptop_battery_add_def sysfs_add_groups_def
        framework_laptop_battery_groups_def EEXIST_def)
  have removed: "framework_laptop_battery_remove device_remove_groups battery
        = (0, device_remove_groups battery framework_laptop_battery_groups)"
    by (simp add: framework_laptop_battery_remove_def)
  from other bat1 accepted sysfs removed show ?thesis by blast
qed

theorem battery_add_installs_on_success_witness:
  "framework_laptop_battery_add sysfs_add_groups \<lparr>desc_name = ''BAT0'', dev_attrs = []\<rparr>
     = (- 19, \<lparr>desc_name = ''BAT0'', dev_attrs = []\<rparr>)
   \<and> framework_laptop_battery_add sysfs_add_groups \<lparr>desc_name = ''BAT1'', dev_attrs = []\<rparr>
     = (0, \<lparr>desc_name = ''BAT1'', dev_attrs = [''charge_control_end_threshold'']\<rparr>)
   \<and> fst (framework_laptop_battery_add nomem_add_groups \<lparr>desc_name = ''BAT1'', dev_attrs = []\<rparr>)
     = - 19
   \<and> framework_laptop_battery_remove sysfs_remove_groups
        \<lparr>desc_name = ''BAT0'', dev_attrs = []\<rparr> = (0, \<lparr>desc_name = ''BAT0'', dev_attrs = []\<rparr>)"
proof -
  have a: "framework_laptop_battery_add sysfs_add_groups \<lparr>desc_name = ''BAT0'', dev_attrs = []\<rparr>
     = (- 19, \<lparr>desc_name = ''BAT0'', dev_attrs = []\<rparr>)"
    using battery_add_installs_on_success
      [where battery = "\<lparr>desc_name = ''BAT0'', dev_attrs = []\<rparr>"
        and device_add_groups = sysfs_add_groups
        and device_remove_groups = sysfs_remove_groups]
    by (simp add: ENODEV_def)
  have b: "framework_laptop_battery_add sysfs_add_groups \<lparr>desc_name = ''BAT1'', dev_attrs = []\<rparr>
     = (0, \<lparr>desc_name = ''BAT1'', dev_attrs = [''charge_control_end_threshold'']\<rparr>)"
    using battery_add_installs_on_success
      [where battery = "\<lparr>desc_name = ''BAT1'', dev_attrs = []\<rparr>"
        and device_add_groups = sysfs_add_groups
        and device_remove_groups = sysfs_remove_groups]
    by (simp add: sysfs_add_groups_def framework_laptop_battery_groups_def)
  have c: "fst (framework_laptop_battery_add nomem_add_groups \<lparr>desc_name = ''BAT1'', dev_attrs = []\<rparr>)
     = - 19"
    using battery_add_installs_on_success
      [where battery = "\<lparr>desc_name = ''BAT1'', dev_attrs = []\<rparr>"
        and device_add_groups = nomem_add_groups
        and device_remove_groups = sysfs_remove_groups]
    by (simp add: nomem_add_groups_def errno_defs)
  have d: "framework_laptop_battery_remove sysfs_remove_groups
        \<lparr>desc_name = ''BAT0'', dev_attrs = []\<rparr> = (0, \<lparr>desc_name = ''BAT0'', dev_attrs = []\<rparr>)"
    using battery_add_installs_on_success
      [where battery = "\<lparr>desc_name = ''BAT0'', dev_attrs = []\<rparr>"
        and device_add_groups = sysfs_add_groups
        and device_remove_groups = sysfs_remove_groups]
    by (simp add: sysfs_remove_groups_def)
  from a b c d show ?thesis by simp
qed

end
